theory Spec2Isabelle
  imports Main "HOL-Library.Char_ord" "HOL-Library.List_Lexorder" "HOL-Library.Sublist"
    "HOL-Library.Multiset"
begin

section \<open>Python strings\<close>

text \<open>
  A Python \<open>str\<close> is modelled as a \<^typ>\<open>string\<close>; a \<^typ>\<open>char\<close> stands for a code point
  below 256. Strings are compared as Python compares them: lexicographically by code
  point, a proper prefix being smaller (the order of \<open>List_Lexorder\<close> over \<open>Char_ord\<close>).
\<close>

abbreviation LF :: char where "LF \<equiv> CHR 0x0A"
abbreviation CR :: char where "CR \<equiv> CHR 0x0D"

text \<open>\<open>str.isspace\<close> on one character: the code points below 256 that Python counts as
  whitespace, which are the ones \<open>strip()\<close>, \<open>rstrip()\<close> and the regular expression
  escape \<open>\s\<close> remove or match.\<close>

definition is_space :: "char \<Rightarrow> bool" where
  "is_space c \<longleftrightarrow> c \<in> set [CHR 0x09, CHR 0x0A, CHR 0x0B, CHR 0x0C, CHR 0x0D,
     CHR 0x1C, CHR 0x1D, CHR 0x1E, CHR 0x1F, CHR 0x20, CHR 0x85, CHR 0xA0]"

text \<open>The line boundaries of \<open>str.splitlines\<close> (below 256).\<close>

definition is_linebreak :: "char \<Rightarrow> bool" where
  "is_linebreak c \<longleftrightarrow> c \<in> set [CHR 0x0A, CHR 0x0B, CHR 0x0C, CHR 0x0D,
     CHR 0x1C, CHR 0x1D, CHR 0x1E, CHR 0x85]"

text \<open>\<open>s.lstrip(chars)\<close>, \<open>s.lstrip()\<close>, \<open>s.rstrip()\<close>, \<open>s.strip()\<close>.\<close>

definition lstrip_chars :: "string \<Rightarrow> string \<Rightarrow> string" where
  "lstrip_chars chars s = dropWhile (\<lambda>c. c \<in> set chars) s"

definition lstrip :: "string \<Rightarrow> string" where
  "lstrip s = dropWhile is_space s"

definition rstrip :: "string \<Rightarrow> string" where
  "rstrip s = rev (dropWhile is_space (rev s))"

definition strip :: "string \<Rightarrow> string" where
  "strip s = rstrip (lstrip s)"

text \<open>\<open>s.splitlines()\<close>: the lines of \<open>s\<close> without their line breaks; \<open>\r\n\<close> is one
  break, and a final line break opens no further line. The first argument is the line
  being read.\<close>

fun splitlines_from :: "string \<Rightarrow> string \<Rightarrow> string list" where
  "splitlines_from cur [] = (if cur = [] then [] else [cur])"
| "splitlines_from cur (c # cs) =
     (if is_linebreak c
      then cur # splitlines_from [] (if c = CR \<and> cs \<noteq> [] \<and> hd cs = LF then tl cs else cs)
      else splitlines_from (cur @ [c]) cs)"

definition splitlines :: "string \<Rightarrow> string list" where
  "splitlines s = splitlines_from [] s"

text \<open>\<open>s.split(sep)\<close> for a one-character separator: always at least one piece (the
  first branch of the \<open>case\<close> is never taken).\<close>

fun split_on :: "char \<Rightarrow> string \<Rightarrow> string list" where
  "split_on d [] = [[]]"
| "split_on d (c # cs) =
     (if c = d then [] # split_on d cs
      else (case split_on d cs of
              [] \<Rightarrow> [[c]]
            | piece # pieces \<Rightarrow> (c # piece) # pieces))"

text \<open>\<open>sep.join(xs)\<close>.\<close>

fun join :: "string \<Rightarrow> string list \<Rightarrow> string" where
  "join sep [] = []"
| "join sep [x] = x"
| "join sep (x # y # ys) = x @ sep @ join sep (y # ys)"

text \<open>\<open>sorted(xs)\<close> on a list of strings, with Python's default comparison.\<close>

definition sorted_py :: "string list \<Rightarrow> string list" where
  "sorted_py xs = sort xs"

section \<open>JSON values\<close>

text \<open>
  The persisted record is the \<open>dict\<close> that \<open>json.load\<close> returns. The model covers the
  records whose values are \<open>null\<close>, booleans, integers, strings or arrays of strings,
  under any keys.
\<close>

datatype jvalue = JNull | JBool bool | JInt int | JStr string | JList "string list"

section \<open>Errors\<close>

text \<open>
  The scripts raise \<open>Exception(message)\<close> everywhere; the built-in operations they call
  raise \<open>ValueError\<close>, \<open>IndexError\<close>, \<open>KeyError\<close> and \<open>TypeError\<close>. Each raise site is
  one constructor, carrying what its message interpolates.
\<close>

datatype error =
    ReadmeDescriptionParseFailure
  | ReadmeRelevantAPIParseFailure
  | ReadmeTagsParseFailure
  | FolderNameIncorrect string
  | ValueError string
  | IndexError
  | KeyError string
  | TypeError
  | UnableToGetSwiftSourceCodePaths
  | UnableToGetImagesPaths
  | EmptyTags
  | WrongLetterCaseForTag string
  | EmptyCharInTags
  | ExtraWhitespacesInTags
  | DuplicateTags
  | TagsNotSorted
  | UnexpectedHeader "string set"
  | MissingEssentialHeader "string set"
  | WrongOrderAt string
  | InconsistentMetadata string string
  | MissingCategory
  | InvalidCategory jvalue

section \<open>Static functions of common.py\<close>

text \<open>\<open>sub_special_char\<close>: \<open>re.sub\<close> of the character class
  \<open>[@_!#$%^&*<>?|/\\}{~:]\<close> by the empty string.\<close>

definition special_chars :: "char list" where
  "special_chars = [CHR ''@'', CHR ''_'', CHR ''!'', CHR ''#'', CHR ''$'', CHR ''%'',
     CHR ''^'', CHR ''&'', CHR ''*'', CHR ''<'', CHR ''>'', CHR ''?'', CHR ''|'',
     CHR ''/'', CHR 0x5C, CHR ''}'', CHR ''{'', CHR ''~'', CHR '':'']"

definition sub_special_char :: "string \<Rightarrow> string" where
  "sub_special_char s = filter (\<lambda>c. c \<notin> set special_chars) s"

text \<open>\<open>list(filter(bool, s.splitlines()))\<close>: the lines that are not the empty string.\<close>

definition nonempty_lines :: "string \<Rightarrow> string list" where
  "nonempty_lines s = filter (\<lambda>l. l \<noteq> []) (splitlines s)"

definition parse_head :: "string \<Rightarrow> error + (string \<times> string)" where
  "parse_head head_string =
     (let parts = nonempty_lines head_string in
      if length parts < 3 then Inl ReadmeDescriptionParseFailure
      else Inr (rstrip (lstrip_chars ''# '' (parts ! 0)), strip (parts ! 1)))"

definition parse_apis :: "string \<Rightarrow> error + string list" where
  "parse_apis apis_string =
     (let apis = nonempty_lines apis_string in
      if apis = [] then Inl ReadmeRelevantAPIParseFailure
      else Inr (sorted_py (map (\<lambda>api. rstrip (lstrip_chars ''*- '' api)) apis)))"

definition parse_tags :: "string \<Rightarrow> error + string list" where
  "parse_tags tags_string =
     (let tags = split_on (CHR '','') tags_string in
      if tags = [] then Inl ReadmeTagsParseFailure
      else Inr (sorted_py (map strip tags)))"

text \<open>\<open>check_is_subsequence\<close>. The loop runs \<open>pb\<close> from \<open>len(list_b)\<close> down to 1, that
  is, over \<open>list_b\<close> reversed; \<open>pa\<close> is the number of elements of \<open>list_a\<close> not yet
  matched. \<open>list_a[pa - 1]\<close> is read only with \<open>0 < pa \<le> len(list_a)\<close>. The function is
  annotated \<open>-> int\<close>; its first branch returns \<open>True\<close>, which in Python is the
  integer 1 (\<open>True == 1\<close>, \<open>True != 0\<close>).\<close>

fun subsequence_loop :: "string list \<Rightarrow> nat \<Rightarrow> string list \<Rightarrow> int" where
  "subsequence_loop list_a pa [] = int pa"
| "subsequence_loop list_a pa (b # bs) =
     (if pa = 0 then 0
      else subsequence_loop list_a (if b = list_a ! (pa - 1) then pa - 1 else pa) bs)"

definition check_is_subsequence :: "string list \<Rightarrow> string list \<Rightarrow> int" where
  "check_is_subsequence list_a list_b =
     (if list_a = [] then 1
      else subsequence_loop list_a (length list_a) (rev list_b))"

text \<open>\<open>get_readme_parts\<close>: \<open>re.split\<close> and \<open>re.findall\<close> with the pattern
  \<open>^#{2}(?!#)\s(.*)\<close> under \<open>re.MULTILINE\<close>. A match starts at the beginning of the
  text or right after a line feed, reads two pound marks and one whitespace character
  (which is never a pound mark, so the look-ahead adds nothing), and captures the rest
  up to the next line feed. \<open>re.split\<close> returns the text before the first match, then
  for each match its capture and the text up to the next match; \<open>re.findall\<close> returns
  the captures, which are the elements of that list at the odd positions.\<close>

definition starts_header :: "string \<Rightarrow> bool" where
  "starts_header s =
     (case s of a # b # w # _ \<Rightarrow> a = CHR ''#'' \<and> b = CHR ''#'' \<and> is_space w | _ \<Rightarrow> False)"

function scan_parts :: "bool \<Rightarrow> string \<Rightarrow> string \<Rightarrow> string list" where
  "scan_parts at_start acc [] = [acc]"
| "scan_parts at_start acc (c # cs) =
     (if at_start \<and> starts_header (c # cs)
      then acc # takeWhile (\<lambda>x. x \<noteq> LF) (drop 2 cs)
             # scan_parts False [] (dropWhile (\<lambda>x. x \<noteq> LF) (drop 2 cs))
      else scan_parts (c = LF) (acc @ [c]) cs)"
  by pat_completeness auto
termination
  by (relation "measure (\<lambda>(at_start, acc, s). length s)")
     (auto intro: le_less_trans[OF length_dropWhile_le])

fun odd_elems :: "'a list \<Rightarrow> 'a list" where
  "odd_elems (x # y # zs) = y # odd_elems zs"
| "odd_elems zs = []"

definition get_readme_parts :: "string \<Rightarrow> string list \<times> string list" where
  "get_readme_parts content =
     (let readme_parts = scan_parts True [] content in (readme_parts, odd_elems readme_parts))"

text \<open>\<open>os.path.splitext\<close>: the extension starts at the last dot of the last path
  component, provided a character other than a dot precedes it in that component.\<close>

definition splitext :: "string \<Rightarrow> string \<times> string" where
  "splitext p =
     (let base = rev (takeWhile (\<lambda>c. c \<noteq> CHR ''/'') (rev p));
          ext = CHR ''.'' # rev (takeWhile (\<lambda>c. c \<noteq> CHR ''.'') (rev base));
          stem = take (length base - length ext) base
      in if CHR ''.'' \<in> set base \<and> (\<exists>c \<in> set stem. c \<noteq> CHR ''.'')
         then (take (length p - length ext) p, ext)
         else (p, []))"

text \<open>\<open>xs.index(x)\<close> and \<open>xs[i]\<close> for \<open>i \<ge> 0\<close>, with their errors.\<close>

fun index_of :: "'a \<Rightarrow> 'a list \<Rightarrow> nat option" where
  "index_of x [] = None"
| "index_of x (y # ys) = (if y = x then Some 0 else map_option Suc (index_of x ys))"

definition list_index :: "string list \<Rightarrow> string \<Rightarrow> error + nat" where
  "list_index xs x = (case index_of x xs of None \<Rightarrow> Inl (ValueError x) | Some i \<Rightarrow> Inr i)"

definition list_get :: "'a list \<Rightarrow> nat \<Rightarrow> error + 'a" where
  "list_get xs i = (if i < length xs then Inr (xs ! i) else Inl IndexError)"

subsection \<open>Letter case\<close>

text \<open>
  \<open>str.lower\<close>, \<open>str.upper\<close>, \<open>str.capitalize\<close> and \<open>str.casefold\<close> follow the Unicode
  tables, which are no part of the scripts. The functions that call them take them as
  a parameter; \<open>ascii_case\<close> is what they are on ASCII text.
\<close>

record case_ops =
  lower :: "string \<Rightarrow> string"
  upper :: "string \<Rightarrow> string"
  capitalize :: "string \<Rightarrow> string"
  casefold :: "string \<Rightarrow> string"

definition ascii_lower_char :: "char \<Rightarrow> char" where
  "ascii_lower_char c =
     (case map_of (zip ''ABCDEFGHIJKLMNOPQRSTUVWXYZ'' ''abcdefghijklmnopqrstuvwxyz'') c of
        Some l \<Rightarrow> l | None \<Rightarrow> c)"

definition ascii_upper_char :: "char \<Rightarrow> char" where
  "ascii_upper_char c =
     (case map_of (zip ''abcdefghijklmnopqrstuvwxyz'' ''ABCDEFGHIJKLMNOPQRSTUVWXYZ'') c of
        Some u \<Rightarrow> u | None \<Rightarrow> c)"

definition ascii_case :: case_ops where
  "ascii_case =
     \<lparr> lower = map ascii_lower_char,
       upper = map ascii_upper_char,
       capitalize = (\<lambda>s. case s of [] \<Rightarrow> [] | c # cs \<Rightarrow> ascii_upper_char c # map ascii_lower_char cs),
       casefold = map ascii_lower_char \<rparr>"

subsection \<open>Tag format check\<close>

definition exception_proper_nouns :: "string set" where
  "exception_proper_nouns = {''Arcade'', ''ArcGIS Online'', ''ArcGIS Pro'', ''GeoPackage'',
     ''OAuth'', ''OpenStreetMap'', ''SwiftUI'', ''Web Mercator''}"

definition wrong_letter_case :: "case_ops \<Rightarrow> string \<Rightarrow> bool" where
  "wrong_letter_case ops t \<longleftrightarrow>
     lower ops t \<noteq> t \<and> upper ops t \<noteq> t \<and> capitalize ops t \<noteq> t
     \<and> t \<notin> exception_proper_nouns"

text \<open>\<open>check_tags\<close>. The loop raises at the first tag whose letter case is wrong, before
  any of the checks that follow it.\<close>

definition check_tags :: "case_ops \<Rightarrow> string \<Rightarrow> error + string set" where
  "check_tags ops tags_string =
     (let tags = split_on (CHR '','') tags_string in
      if tags = [] then Inl EmptyTags
      else
        let stripped_tags = map strip tags; s = set stripped_tags in
        case find (wrong_letter_case ops) stripped_tags of
          Some t \<Rightarrow> Inl (WrongLetterCaseForTag t)
        | None \<Rightarrow>
            if [] \<in> s then Inl EmptyCharInTags
            else if join '', '' stripped_tags \<noteq> strip tags_string then Inl ExtraWhitespacesInTags
            else if length tags > card s then Inl DuplicateTags
            else if stripped_tags \<noteq> sort_key (casefold ops) stripped_tags then Inl TagsNotSorted
            else Inr s)"

section \<open>The Readme class: heading check\<close>

definition essential_headers :: "string set" where
  "essential_headers = {''Use case'', ''How to use the sample'', ''How it works'',
     ''Relevant API'', ''Tags''}"

definition available_headers :: "string list" where
  "available_headers = [''Use case'', ''How to use the sample'', ''How it works'',
     ''Relevant API'', ''Offline data'', ''About the data'', ''Additional information'',
     ''Tags'']"

text \<open>\<open>Readme.check_format_heading\<close> on \<open>self.readme_headers\<close>; \<open>Inr ()\<close> is the normal
  return. Here \<open>i \<ge> 1\<close> where \<open>readme_headers[i-1]\<close> is read.\<close>

definition check_format_heading :: "string list \<Rightarrow> error + unit" where
  "check_format_heading readme_headers =
     (let header_set = set readme_headers;
          possible_header_set = set available_headers in
      if header_set - possible_header_set \<noteq> {}
      then Inl (UnexpectedHeader (header_set - possible_header_set))
      else if essential_headers - header_set \<noteq> {}
      then Inl (MissingEssentialHeader (essential_headers - header_set))
      else
        let i = check_is_subsequence readme_headers available_headers in
        if i \<noteq> 0
        then (case list_get readme_headers (nat (i - 1)) of
                Inl e \<Rightarrow> Inl e
              | Inr h \<Rightarrow> Inl (WrongOrderAt h))
        else Inr ())"

section \<open>The persisted record\<close>

text \<open>A \<open>dict\<close> is an association list with distinct keys.\<close>

type_synonym jdict = "(string \<times> jvalue) list"

text \<open>Truth value of an object, as \<open>if x:\<close> and \<open>not x\<close> test it.\<close>

fun truthy :: "jvalue \<Rightarrow> bool" where
  "truthy JNull = False"
| "truthy (JBool b) = b"
| "truthy (JInt n) = (n \<noteq> 0)"
| "truthy (JStr s) = (s \<noteq> [])"
| "truthy (JList xs) = (xs \<noteq> [])"

text \<open>\<open>d[key]\<close> on a \<open>dict\<close>.\<close>

definition dict_get :: "jdict \<Rightarrow> string \<Rightarrow> error + jvalue" where
  "dict_get d k = (case map_of d k of None \<Rightarrow> Inl (KeyError k) | Some v \<Rightarrow> Inr v)"

text \<open>\<open>sorted(x)\<close>: a list of strings is sorted; a string is iterated character by
  character; the other values are not iterable.\<close>

fun sorted_value :: "jvalue \<Rightarrow> error + string list" where
  "sorted_value (JList xs) = Inr (sorted_py xs)"
| "sorted_value (JStr s) = Inr (sorted_py (map (\<lambda>c. [c]) s))"
| "sorted_value v = Inl TypeError"

subsection \<open>\<open>json.dumps(obj, indent=4, sort_keys=True)\<close>\<close>

text \<open>Strings are written between double quotes with \<open>ensure_ascii\<close> escaping: the
  quote and the backslash are escaped, the five short escapes are used, and every other
  character outside the range from space to tilde is written \<open>\u00XX\<close>.\<close>

definition hex_digit :: "nat \<Rightarrow> char" where
  "hex_digit n = ''0123456789abcdef'' ! (n mod 16)"

definition escape_char :: "char \<Rightarrow> string" where
  "escape_char c =
     (if c = CHR 0x22 then [CHR 0x5C, CHR 0x22]
      else if c = CHR 0x5C then [CHR 0x5C, CHR 0x5C]
      else if c = CHR 0x0A then [CHR 0x5C, CHR ''n'']
      else if c = CHR 0x0D then [CHR 0x5C, CHR ''r'']
      else if c = CHR 0x09 then [CHR 0x5C, CHR ''t'']
      else if c = CHR 0x08 then [CHR 0x5C, CHR ''b'']
      else if c = CHR 0x0C then [CHR 0x5C, CHR ''f'']
      else if CHR 0x20 \<le> c \<and> c \<le> CHR 0x7E then [c]
      else [CHR 0x5C, CHR ''u'', CHR ''0'', CHR ''0'',
            hex_digit (of_char c div 16), hex_digit (of_char c)])"

definition encode_str :: "string \<Rightarrow> string" where
  "encode_str s = CHR 0x22 # concat (map escape_char s) @ [CHR 0x22]"

fun show_nat :: "nat \<Rightarrow> string" where
  "show_nat n =
     (if n < 10 then [''0123456789'' ! n]
      else show_nat (n div 10) @ [''0123456789'' ! (n mod 10)])"

definition show_int :: "int \<Rightarrow> string" where
  "show_int i = (if i < 0 then CHR ''-'' # show_nat (nat (- i)) else show_nat (nat i))"

text \<open>A value at nesting level 1 of the output; a non-empty array puts each element on
  its own line, indented by 8 spaces, and closes at 4 spaces.\<close>

fun dump_value :: "jvalue \<Rightarrow> string" where
  "dump_value JNull = ''null''"
| "dump_value (JBool b) = (if b then ''true'' else ''false'')"
| "dump_value (JInt n) = show_int n"
| "dump_value (JStr s) = encode_str s"
| "dump_value (JList xs) =
     (if xs = [] then ''[]''
      else ''['' @ [LF]
           @ join ('','' @ [LF]) (map (\<lambda>x. ''        '' @ encode_str x) xs)
           @ [LF] @ ''    ]'')"

text \<open>The \<open>dict\<close> itself: its items sorted by key, each on its own line, indented by 4
  spaces.\<close>

definition json_dumps :: "jdict \<Rightarrow> string" where
  "json_dumps d =
     (if d = [] then ''{}''
      else ''{'' @ [LF]
           @ join ('','' @ [LF])
               (map (\<lambda>(k, v). ''    '' @ encode_str k @ '': '' @ dump_value v) (sort_key fst d))
           @ [LF] @ ''}'')"

section \<open>The Metadata class\<close>

text \<open>
  The fields of a \<open>Metadata\<close> object. The four fields that \<open>run_check\<close> overwrites with
  values of the persisted record hold JSON values; the others keep the type the class
  gives them. Of the paths only the folder name is kept: the others name the files to
  open, and the texts read from them are arguments of the functions below.
\<close>

record Metadata =
  category :: jvalue
  description :: string
  ignore :: bool
  images :: "string list"
  "keywords" :: "string list"
  redirect_from :: jvalue
  relevant_apis :: "string list"
  snippets :: jvalue
  title :: string
  offline_data :: jvalue
  folder_name :: string

text \<open>\<open>Metadata.__init__\<close>, from the folder name that \<open>get_folder_name_from_path\<close>
  returns.\<close>

definition Metadata_init :: "string \<Rightarrow> Metadata" where
  "Metadata_init name =
     \<lparr> category = JStr [], description = [], ignore = False, images = [], keywords = [],
       redirect_from = JList [], relevant_apis = [], snippets = JList [], title = [],
       offline_data = JList [], folder_name = name \<rparr>"

text \<open>\<open>get_source_code_paths\<close> and \<open>get_images_paths\<close>, on the names that \<open>os.listdir\<close>
  returns.\<close>

definition get_source_code_paths :: "string list \<Rightarrow> error + string list" where
  "get_source_code_paths listing =
     (let results = filter (\<lambda>file. snd (splitext file) \<in> set [''.swift'']) listing in
      if results = [] then Inl UnableToGetSwiftSourceCodePaths
      else Inr (sorted_py results))"

definition get_images_paths :: "case_ops \<Rightarrow> string list \<Rightarrow> error + string list" where
  "get_images_paths ops listing =
     (let results =
            filter (\<lambda>file. lower ops (snd (splitext file)) \<in> set [''.png'', ''.gif'']) listing in
      if results = [] then Inl UnableToGetImagesPaths
      else Inr (sorted_py results))"

definition populate_from_paths :: "case_ops \<Rightarrow> Metadata \<Rightarrow> string list \<Rightarrow> error + Metadata" where
  "populate_from_paths ops self listing =
     (case get_images_paths ops listing of
        Inl e \<Rightarrow> Inl e
      | Inr imgs \<Rightarrow>
          (case get_source_code_paths listing of
             Inl e \<Rightarrow> Inl e
           | Inr srcs \<Rightarrow> Inr (self\<lparr>images := imgs, snippets := JList srcs\<rparr>)))"

text \<open>\<open>populate_from_readme\<close>, on the text read from the README. Both section indices
  are looked up before the title block is parsed.\<close>

definition populate_from_readme :: "Metadata \<Rightarrow> string \<Rightarrow> error + Metadata" where
  "populate_from_readme self readme_content =
     (let readme_parts = fst (get_readme_parts readme_content) in
      case list_index readme_parts ''Relevant API'' of
        Inl e \<Rightarrow> Inl e
      | Inr ai \<Rightarrow>
     (case list_index readme_parts ''Tags'' of
        Inl e \<Rightarrow> Inl e
      | Inr ti \<Rightarrow>
     (case list_get readme_parts 0 of
        Inl e \<Rightarrow> Inl e
      | Inr head \<Rightarrow>
     (case parse_head head of
        Inl e \<Rightarrow> Inl e
      | Inr (t, d) \<Rightarrow>
          if t \<noteq> folder_name self then Inl (FolderNameIncorrect (folder_name self))
          else
     (case list_get readme_parts (ai + 1) of
        Inl e \<Rightarrow> Inl e
      | Inr apis_string \<Rightarrow>
     (case parse_apis apis_string of
        Inl e \<Rightarrow> Inl e
      | Inr apis \<Rightarrow>
     (case list_get readme_parts (ti + 1) of
        Inl e \<Rightarrow> Inl e
      | Inr tags_string \<Rightarrow>
     (case parse_tags tags_string of
        Inl e \<Rightarrow> Inl e
      | Inr kws \<Rightarrow>
          Inr (self\<lparr>title := t, description := d, relevant_apis := apis,
                     keywords := filter (\<lambda>w. w \<notin> set apis) kws @ apis\<rparr>)))))))))"

definition flush_to_json_string :: "Metadata \<Rightarrow> string" where
  "flush_to_json_string self =
     json_dumps
       ([(''category'', category self),
         (''description'', JStr (description self)),
         (''ignore'', JBool (ignore self)),
         (''images'', JList (images self)),
         (''keywords'', JList (keywords self)),
         (''redirect_from'', redirect_from self),
         (''relevant_apis'', JList (relevant_apis self)),
         (''snippets'', snippets self),
         (''title'', JStr (title self))]
        @ (if truthy (offline_data self) then [(''offline_data'', offline_data self)] else []))"

definition categories :: "string set" where
  "categories = {''Analysis'', ''Augmented Reality'', ''Cloud and Portal'',
     ''Edit and Manage Data'', ''Layers'', ''Maps'', ''Scenes'', ''Routing and Logistics'',
     ''Search and Query'', ''Utility Networks'', ''Visualization''}"

text \<open>\<open>check_category\<close>. Membership in a \<open>set\<close> hashes the value, and a list has no
  hash.\<close>

definition check_category :: "Metadata \<Rightarrow> error + unit" where
  "check_category self =
     (if \<not> truthy (category self) then Inl MissingCategory
      else (case category self of
              JList xs \<Rightarrow> Inl TypeError
            | JStr c \<Rightarrow> if c \<notin> categories then Inl (InvalidCategory (JStr c)) else Inr ()
            | v \<Rightarrow> Inl (InvalidCategory v)))"

section \<open>metadata\_checker.py\<close>

text \<open>The special rules of \<open>run_check\<close>, from the copy of \<open>category\<close> to the rule on
  \<open>snippets\<close>: the checker as it stands when it is serialised. \<open>x in s\<close> on a string
  \<open>s\<close> is the substring test and wants a string on its left.\<close>

definition run_check_rules :: "Metadata \<Rightarrow> jdict \<Rightarrow> error + Metadata" where
  "run_check_rules checker json_data =
     (case dict_get json_data ''category'' of
        Inl e \<Rightarrow> Inl e
      | Inr c \<Rightarrow>
     (case dict_get json_data ''redirect_from'' of
        Inl e \<Rightarrow> Inl e
      | Inr r \<Rightarrow>
     (let checker = checker\<lparr>category := c, redirect_from := r\<rparr>;
          checker = (case map_of json_data ''offline_data'' of
                       Some od \<Rightarrow> checker\<lparr>offline_data := od\<rparr>
                     | None \<Rightarrow> checker) in
      case dict_get json_data ''description'' of
        Inl e \<Rightarrow> Inl e
      | Inr (JStr persisted) \<Rightarrow>
     (let checker = (if sublist persisted (sub_special_char (description checker))
                     then checker\<lparr>description := persisted\<rparr> else checker) in
      case dict_get json_data ''snippets'' of
        Inl e \<Rightarrow> Inl e
      | Inr sv \<Rightarrow>
     (case sorted_value sv of
        Inl e \<Rightarrow> Inl e
      | Inr srt \<Rightarrow>
          Inr (if JList srt = snippets checker
               then checker\<lparr>snippets := sv\<rparr> else checker)))
      | Inr _ \<Rightarrow> Inl TypeError)))"

text \<open>The rest of \<open>run_check\<close> after the record is loaded: the rules, the comparison of
  the two serialisations (the error carries both, from which the message's diff is
  made) and the category check.\<close>

definition run_check_loaded :: "Metadata \<Rightarrow> jdict \<Rightarrow> error + unit" where
  "run_check_loaded checker json_data =
     (case run_check_rules checker json_data of
        Inl e \<Rightarrow> Inl e
      | Inr checker \<Rightarrow>
          let new = flush_to_json_string checker;
              original = json_dumps json_data in
          if new \<noteq> original then Inl (InconsistentMetadata new original)
          else check_category checker)"

text \<open>\<open>run_check\<close>, on the folder name, the README text, the folder listing and the
  loaded record.\<close>

definition run_check :: "case_ops \<Rightarrow> string \<Rightarrow> string \<Rightarrow> string list \<Rightarrow> jdict \<Rightarrow> error + unit" where
  "run_check ops name readme_content listing json_data =
     (case populate_from_readme (Metadata_init name) readme_content of
        Inl e \<Rightarrow> Inl e
      | Inr checker \<Rightarrow>
          (case populate_from_paths ops checker listing of
             Inl e \<Rightarrow> Inl e
           | Inr checker \<Rightarrow> run_check_loaded checker json_data))"

section \<open>Example inputs\<close>

text \<open>A README in the shape the scripts expect, the metadata derived from it in the
  folder \<open>Display map\<close> holding \<open>B.swift\<close>, \<open>A.swift\<close> and \<open>image.png\<close>, and a persisted
  record that lists the snippets in another order. They instantiate the theorems
  below.\<close>

definition example_readme :: string where
  "example_readme =
     ''# Display map'' @ [LF, LF] @ ''Display a map.'' @ [LF, LF] @ ''![](image.png)'' @ [LF, LF]
     @ ''## Relevant API'' @ [LF, LF] @ ''* MapView'' @ [LF] @ ''* Map'' @ [LF, LF]
     @ ''## Tags'' @ [LF, LF] @ ''basemap, Map, map'' @ [LF]"

definition example_metadata :: Metadata where
  "example_metadata =
     \<lparr> category = JStr [], description = ''Display a map.'',
       ignore = False, images = [''image.png''],
       keywords = [''basemap'', ''map'', ''Map'', ''MapView''],
       redirect_from = JList [], relevant_apis = [''Map'', ''MapView''],
       snippets = JList [''A.swift'', ''B.swift''], title = ''Display map'',
       offline_data = JList [], folder_name = ''Display map'' \<rparr>"

definition example_record :: jdict where
  "example_record =
     [(''title'', JStr ''Display map''),
      (''snippets'', JList [''B.swift'', ''A.swift'']),
      (''relevant_apis'', JList [''Map'', ''MapView'']),
      (''redirect_from'', JList []),
      (''keywords'', JList [''basemap'', ''map'', ''Map'', ''MapView'']),
      (''images'', JList [''image.png'']),
      (''ignore'', JBool False),
      (''description'', JStr ''Display a map.''),
      (''category'', JStr ''Maps'')]"

section \<open>Properties\<close>

subsection \<open>The subsequence check\<close>

lemma subseq_rev_imp: "subseq xs ys \<Longrightarrow> subseq (rev xs) (rev ys)"
  by (induction rule: list_emb.induct)
     (auto intro: subseq_rev_drop_many list_emb_append_mono)

lemma subseq_rev_iff: "subseq (rev xs) (rev ys) = subseq xs ys"
  using subseq_rev_imp[of xs ys] subseq_rev_imp[of "rev xs" "rev ys"] by auto

text \<open>With \<open>pa\<close> elements of \<open>list_a\<close> still to match, the loop ends at zero exactly when
  those elements, read backward, are a subsequence of what is left of \<open>list_b\<close>.\<close>

lemma subsequence_loop_zero_iff:
  "pa \<le> length a \<Longrightarrow> (subsequence_loop a pa bs = 0) = subseq (rev (take pa a)) bs"
proof (induction bs arbitrary: pa)
  case Nil
  then show ?case by (cases pa) auto
next
  case (Cons b bs)
  show ?case
  proof (cases pa)
    case 0
    then show ?thesis by simp
  next
    case (Suc n)
    with Cons.prems have n: "n < length a" by simp
    then have tk: "rev (take (Suc n) a) = a ! n # rev (take n a)"
      by (simp add: take_Suc_conv_app_nth)
    show ?thesis using Cons.IH[of n] Cons.IH[of pa] Cons.prems n
      by (simp add: tk Suc)
  qed
qed

lemma subsequence_loop_bounds:
  "0 \<le> subsequence_loop a pa bs \<and> subsequence_loop a pa bs \<le> int pa"
proof (induction bs arbitrary: pa)
  case Nil
  show ?case by simp
next
  case (Cons b bs)
  have "0 \<le> subsequence_loop a (pa - 1) bs \<and> subsequence_loop a (pa - 1) bs \<le> int pa"
    using Cons.IH[of "pa - 1"] by linarith
  then show ?case using Cons.IH[of pa] by simp
qed

text \<open>On a non-empty observed list the function is what its docstring says.\<close>

lemma check_is_subsequence_nonempty:
  "a \<noteq> [] \<Longrightarrow> (check_is_subsequence a b = 0) = subseq a b"
  using subsequence_loop_zero_iff[of "length a" a "rev b"] subseq_rev_iff[of a b]
  by (simp add: check_is_subsequence_def)

lemma subseq_distinct: "subseq xs ys \<Longrightarrow> distinct ys \<Longrightarrow> distinct xs"
proof (induction rule: list_emb.induct)
  case (list_emb_Cons2 x y xs ys)
  then show ?case using list_emb_set[of "(=)" xs ys] by auto
qed auto

lemma distinct_available_headers: "distinct available_headers"
  by (simp add: available_headers_def)

text \<open>
  Claim C3. \<open>check_is_subsequence(a, b)\<close> is said to return zero exactly when \<open>a\<close> is a
  subsequence of \<open>b\<close>, and in particular for the empty list. On the empty observed
  list the code returns \<open>True\<close>, the integer 1, which the caller's test \<open>i != 0\<close> takes
  for a failure; the function's docstring promises 0 for a subsequence and its comment
  says that the empty list always is one. (On non-empty lists the function agrees
  with the claim: \<open>check_is_subsequence_nonempty\<close>.)
\<close>

theorem check_is_subsequence_empty:
  "check_is_subsequence [] list_b = 1 \<and> check_is_subsequence [] list_b \<noteq> 0"
  by (simp add: check_is_subsequence_def)

text \<open>
  Claim C8. \<open>check_format_heading\<close> raises on every header list in which a header name
  occurs more than once. The two set checks cannot see the repetition; when they pass,
  the order check fails, because the canonical list has no repetition, and the error
  raised is the wrong-order error at the header the matcher stopped at.
\<close>

theorem check_format_heading_rejects_repeated:
  "\<not> distinct readme_headers \<Longrightarrow>
     (\<exists>e. check_format_heading readme_headers = Inl e) \<and>
     (set readme_headers \<subseteq> set available_headers \<and> essential_headers \<subseteq> set readme_headers \<longrightarrow>
        check_is_subsequence readme_headers available_headers \<noteq> 0 \<and>
        check_format_heading readme_headers =
          Inl (WrongOrderAt (readme_headers !
                 nat (check_is_subsequence readme_headers available_headers - 1))))"
proof -
  assume dup: "\<not> distinct readme_headers"
  let ?i = "check_is_subsequence readme_headers available_headers"
  from dup have ne: "readme_headers \<noteq> []" by auto
  have "\<not> subseq readme_headers available_headers"
    using dup subseq_distinct distinct_available_headers by blast
  with ne have nz: "?i \<noteq> 0"
    by (simp add: check_is_subsequence_nonempty)
  have "0 \<le> ?i \<and> ?i \<le> int (length readme_headers)"
    using ne subsequence_loop_bounds[of readme_headers "length readme_headers" "rev available_headers"]
    by (simp add: check_is_subsequence_def)
  with nz have idx: "nat (?i - 1) < length readme_headers" by linarith
  have ordered: "set readme_headers \<subseteq> set available_headers \<Longrightarrow>
      essential_headers \<subseteq> set readme_headers \<Longrightarrow>
      check_format_heading readme_headers = Inl (WrongOrderAt (readme_headers ! nat (?i - 1)))"
    using nz idx by (simp add: check_format_heading_def list_get_def Let_def)
  have "\<exists>e. check_format_heading readme_headers = Inl e"
    using nz idx by (simp add: check_format_heading_def list_get_def Let_def)
  with nz ordered show ?thesis by blast
qed

theorem check_format_heading_rejects_repeated_witness:
  "\<not> distinct [''Use case'', ''How to use the sample'', ''How it works'', ''Relevant API'',
                 ''Tags'', ''Tags''] \<and>
   check_format_heading [''Use case'', ''How to use the sample'', ''How it works'',
                 ''Relevant API'', ''Tags'', ''Tags''] = Inl (WrongOrderAt ''Tags'')"
proof -
  let ?hs = "[''Use case'', ''How to use the sample'', ''How it works'', ''Relevant API'',
                 ''Tags'', ''Tags'']"
  have d: "\<not> distinct ?hs" by simp
  have sub: "set ?hs \<subseteq> set available_headers \<and> essential_headers \<subseteq> set ?hs"
    by (simp add: available_headers_def essential_headers_def)
  have i: "check_is_subsequence ?hs available_headers = 5"
    by (simp add: check_is_subsequence_def available_headers_def)
  from check_format_heading_rejects_repeated[OF d] sub
  have "check_format_heading ?hs =
          Inl (WrongOrderAt (?hs ! nat (check_is_subsequence ?hs available_headers - 1)))"
    by blast
  then show ?thesis using d by (simp add: i)
qed

subsection \<open>Tags\<close>

lemma split_on_not_empty: "split_on d s \<noteq> []"
  by (induction s) (auto split: list.splits)

text \<open>
  Claim C4. \<open>parse_tags\<close> is said to raise on a Tags body without tags. The code tests
  \<open>if not tags\<close> on the result of \<open>str.split\<close>, which is never the empty list: the empty
  body splits into one empty string, and the function returns the list of that string.
  The raise of \<open>parse_tags\<close> is reached on no input.
\<close>

theorem parse_tags_empty_body:
  "parse_tags [] = Inr [[]] \<and> parse_tags tags_string \<noteq> Inl ReadmeTagsParseFailure"
  using split_on_not_empty[of "CHR '',''" tags_string]
  by (simp add: parse_tags_def sorted_py_def strip_def lstrip_def rstrip_def)

text \<open>
  Claim C9. \<open>check_tags\<close> returns normally only if the stripped tags, joined with a
  comma and a space, are the tag string stripped; where the two differ the check
  raises, whatever the letter-case functions are.
\<close>

theorem check_tags_round_trip:
  "(\<forall>s. check_tags ops tags_string = Inr s \<longrightarrow>
      join '', '' (map strip (split_on (CHR '','') tags_string)) = strip tags_string) \<and>
   (join '', '' (map strip (split_on (CHR '','') tags_string)) \<noteq> strip tags_string \<longrightarrow>
      (\<exists>e. check_tags ops tags_string = Inl e))"
  by (auto simp: check_tags_def Let_def split: if_splits option.splits)

theorem check_tags_round_trip_witness:
  "check_tags ascii_case ''basemap, map, OAuth'' = Inr {''basemap'', ''map'', ''OAuth''} \<and>
   join '', '' (map strip (split_on (CHR '','') ''basemap, map, OAuth''))
     = strip ''basemap, map, OAuth'' \<and>
   join '', '' (map strip (split_on (CHR '','') ''basemap,  map'')) \<noteq> strip ''basemap,  map'' \<and>
   check_tags ascii_case ''basemap,  map'' = Inl ExtraWhitespacesInTags"
proof -
  have ok: "check_tags ascii_case ''basemap, map, OAuth'' = Inr {''basemap'', ''map'', ''OAuth''}"
    by code_simp
  have differs:
    "join '', '' (map strip (split_on (CHR '','') ''basemap,  map'')) \<noteq> strip ''basemap,  map''"
    by code_simp
  have bad: "check_tags ascii_case ''basemap,  map'' = Inl ExtraWhitespacesInTags"
    by code_simp
  from check_tags_round_trip[of ascii_case "''basemap, map, OAuth''"] ok
  have "join '', '' (map strip (split_on (CHR '','') ''basemap, map, OAuth''))
          = strip ''basemap, map, OAuth''"
    by blast
  moreover from check_tags_round_trip[of ascii_case "''basemap,  map''"] differs
  have "\<exists>e. check_tags ascii_case ''basemap,  map'' = Inl e"
    by blast
  ultimately show ?thesis using ok differs bad by blast
qed

subsection \<open>The example inputs, evaluated\<close>

lemma example_parts:
  "fst (get_readme_parts example_readme) =
     [''# Display map'' @ [LF, LF] @ ''Display a map.'' @ [LF, LF] @ ''![](image.png)'' @ [LF, LF],
      ''Relevant API'', [LF, LF] @ ''* MapView'' @ [LF] @ ''* Map'' @ [LF, LF],
      ''Tags'', [LF, LF] @ ''basemap, Map, map'' @ [LF]]"
  by code_simp


lemma example_populate:
  "populate_from_readme (Metadata_init ''Display map'') example_readme =
     Inr (example_metadata\<lparr>images := [], snippets := JList []\<rparr>)"
  by code_simp

lemma example_derivation:
  "(case populate_from_readme (Metadata_init ''Display map'') example_readme of
      Inl e \<Rightarrow> Inl e
    | Inr m \<Rightarrow> populate_from_paths ascii_case m [''B.swift'', ''A.swift'', ''image.png''])
   = Inr example_metadata"
  by code_simp

lemma example_wrong_folder:
  "populate_from_readme (Metadata_init ''Display Map'') example_readme =
     Inl (FolderNameIncorrect ''Display Map'')"
  by code_simp

text \<open>The whole check accepts the example record, whose snippets are out of order.\<close>

lemma example_run_check:
  "run_check ascii_case ''Display map'' example_readme [''B.swift'', ''A.swift'', ''image.png'']
     example_record = Inr ()"
  by code_simp

subsection \<open>The title block\<close>

lemma lstrip_chars_spaces:
  "n' = [] \<or> (\<not> is_space (hd n') \<and> hd n' \<noteq> CHR ''#'') \<Longrightarrow>
   lstrip_chars ''# '' (replicate k (CHR '' '') @ n') = n'"
  by (induction k) (auto simp: lstrip_chars_def is_space_def dropWhile_eq_self_iff)

lemma lstrip_spaces:
  "n' = [] \<or> (\<not> is_space (hd n') \<and> hd n' \<noteq> CHR ''#'') \<Longrightarrow>
   lstrip (replicate k (CHR '' '') @ n') = n'"
  by (induction k) (auto simp: lstrip_def is_space_def dropWhile_eq_self_iff)

text \<open>
  Claim C10, as stated: for a title block whose first non-empty line is \<open># <Name>\<close>,
  \<open>parse_head\<close> returns \<open><Name>\<close> stripped of surrounding whitespace. It does not where
  \<open><Name>\<close> begins with a pound mark: \<open>lstrip('# ')\<close> removes every leading pound mark
  and space, those of the name included.
\<close>

theorem parse_head_title_counterexample:
  "nonempty_lines (''# #1 sample'' @ [LF, LF] @ ''A description.'' @ [LF, LF] @ ''![](image.png)'') ! 0
     = ''# '' @ ''#1 sample'' \<and>
   parse_head (''# #1 sample'' @ [LF, LF] @ ''A description.'' @ [LF, LF] @ ''![](image.png)'')
     = Inr (''1 sample'', ''A description.'') \<and>
   strip ''#1 sample'' = ''#1 sample''"
  by code_simp

text \<open>
  Claim C10, amended. \<open>parse_head\<close> raises when the title block has fewer than three
  non-empty lines. Otherwise, when the first of them is \<open># <Name>\<close>, the title is
  \<open><Name>\<close> without its leading pound marks and spaces and without its trailing
  whitespace; that is \<open><Name>\<close> stripped whenever \<open><Name>\<close>, after its leading spaces,
  begins with neither a pound mark nor another whitespace character. The description
  is the second non-empty line, stripped.
\<close>

theorem parse_head_title:
  "(length (nonempty_lines head_string) < 3 \<longrightarrow>
      parse_head head_string = Inl ReadmeDescriptionParseFailure) \<and>
   (nonempty_lines head_string = (''# '' @ name) # rest \<and> 2 \<le> length rest \<longrightarrow>
      parse_head head_string = Inr (rstrip (lstrip_chars ''# '' name), strip (hd rest)) \<and>
      (\<forall>k n'. name = replicate k (CHR '' '') @ n' \<and>
               (n' = [] \<or> (\<not> is_space (hd n') \<and> hd n' \<noteq> CHR ''#'')) \<longrightarrow>
          rstrip (lstrip_chars ''# '' name) = strip name))"
proof -
  have a: "length (nonempty_lines head_string) < 3 \<longrightarrow>
      parse_head head_string = Inl ReadmeDescriptionParseFailure"
    by (simp add: parse_head_def)
  have b: "nonempty_lines head_string = (''# '' @ name) # rest \<Longrightarrow> 2 \<le> length rest \<Longrightarrow>
      parse_head head_string = Inr (rstrip (lstrip_chars ''# '' name), strip (hd rest))"
    by (cases rest) (auto simp: parse_head_def lstrip_chars_def Let_def)
  have c: "\<forall>k n'. name = replicate k (CHR '' '') @ n' \<and>
               (n' = [] \<or> (\<not> is_space (hd n') \<and> hd n' \<noteq> CHR ''#'')) \<longrightarrow>
          rstrip (lstrip_chars ''# '' name) = strip name"
    using lstrip_chars_spaces lstrip_spaces by (simp add: strip_def)
  from a b c show ?thesis by blast
qed

theorem parse_head_title_witness:
  "length (nonempty_lines (''# Display map'' @ [LF] @ ''Display a map.'')) < 3 \<and>
   parse_head (''# Display map'' @ [LF] @ ''Display a map.'') = Inl ReadmeDescriptionParseFailure \<and>
   nonempty_lines (''#   Display map  '' @ [LF, LF] @ ''Display a map.'' @ [LF] @ ''![](image.png)'')
     = (''# '' @ ''  Display map  '') # [''Display a map.'', ''![](image.png)''] \<and>
   parse_head (''#   Display map  '' @ [LF, LF] @ ''Display a map.'' @ [LF] @ ''![](image.png)'')
     = Inr (''Display map'', ''Display a map.'') \<and>
   strip ''  Display map  '' = ''Display map''"
proof -
  let ?short = "''# Display map'' @ [LF] @ ''Display a map.''"
  let ?head = "''#   Display map  '' @ [LF, LF] @ ''Display a map.'' @ [LF] @ ''![](image.png)''"
  have few: "length (nonempty_lines ?short) < 3" by code_simp
  have lines: "nonempty_lines ?head
     = (''# '' @ ''  Display map  '') # [''Display a map.'', ''![](image.png)'']"
    by code_simp
  have shape: "''  Display map  '' = replicate 2 (CHR '' '') @ ''Display map  '' \<and>
     (''Display map  '' = [] \<or>
      (\<not> is_space (hd ''Display map  '') \<and> hd ''Display map  '' \<noteq> CHR ''#''))"
    by code_simp
  have title: "rstrip (lstrip_chars ''# '' ''  Display map  '') = ''Display map''"
    by code_simp
  from parse_head_title[of ?short] few
  have r1: "parse_head ?short = Inl ReadmeDescriptionParseFailure" by blast
  from parse_head_title[of ?head "''  Display map  ''" "[''Display a map.'', ''![](image.png)'']"]
    lines
  have r2: "parse_head ?head =
              Inr (rstrip (lstrip_chars ''# '' ''  Display map  ''),
                   strip (hd [''Display a map.'', ''![](image.png)''])) \<and>
            (\<forall>k n'. ''  Display map  '' = replicate k (CHR '' '') @ n' \<and>
               (n' = [] \<or> (\<not> is_space (hd n') \<and> hd n' \<noteq> CHR ''#'')) \<longrightarrow>
               rstrip (lstrip_chars ''# '' ''  Display map  '') = strip ''  Display map  '')"
    by simp
  from r2 shape have r3: "rstrip (lstrip_chars ''# '' ''  Display map  '') = strip ''  Display map  ''"
    by blast
  have d: "strip (hd [''Display a map.'', ''![](image.png)'']) = ''Display a map.''"
    by code_simp
  from r2 have ph: "parse_head ?head = Inr (''Display map'', ''Display a map.'')"
    by (simp only: title d)
  from r3 have st: "strip ''  Display map  '' = ''Display map''"
    by (simp only: title)
  show ?thesis by (intro conjI few r1 lines ph st)
qed

subsection \<open>Derivation from the README\<close>

text \<open>What a normal return of \<open>populate_from_readme\<close> says about each of its steps.\<close>

lemma populate_from_readme_Inr:
  assumes "populate_from_readme self readme_content = Inr m"
  obtains ai ti t d apis kws where
    "list_index (fst (get_readme_parts readme_content)) ''Relevant API'' = Inr ai"
    "list_index (fst (get_readme_parts readme_content)) ''Tags'' = Inr ti"
    "parse_head (fst (get_readme_parts readme_content) ! 0) = Inr (t, d)"
    "t = folder_name self"
    "parse_apis (fst (get_readme_parts readme_content) ! (ai + 1)) = Inr apis"
    "parse_tags (fst (get_readme_parts readme_content) ! (ti + 1)) = Inr kws"
    "m = self\<lparr>title := t, description := d, relevant_apis := apis,
               keywords := filter (\<lambda>w. w \<notin> set apis) kws @ apis\<rparr>"
  using assms
  by (auto simp: populate_from_readme_def Let_def list_get_def
           split: sum.splits if_splits prod.splits)











text \<open>
  Claim C6. After a normal return of \<open>populate_from_readme\<close>, \<open>keywords\<close> is the list
  parsed from the Tags section without the tags that occur in \<open>relevant_apis\<close>,
  followed by \<open>relevant_apis\<close>; the part of \<open>keywords\<close> before the APIs shares no element
  with \<open>relevant_apis\<close>.
\<close>

theorem populate_from_readme_keywords:
  "populate_from_readme self readme_content = Inr m \<Longrightarrow>
     \<exists>ti tags. list_index (fst (get_readme_parts readme_content)) ''Tags'' = Inr ti \<and>
       parse_tags (fst (get_readme_parts readme_content) ! (ti + 1)) = Inr tags \<and>
       keywords m = filter (\<lambda>w. w \<notin> set (relevant_apis m)) tags @ relevant_apis m \<and>
       set (take (length (keywords m) - length (relevant_apis m)) (keywords m))
         \<inter> set (relevant_apis m) = {}"
  by (erule populate_from_readme_Inr) auto

theorem populate_from_readme_keywords_witness:
  "populate_from_readme (Metadata_init ''Display map'') example_readme =
     Inr (example_metadata\<lparr>images := [], snippets := JList []\<rparr>) \<and>
   parse_tags (fst (get_readme_parts example_readme) ! 4) = Inr [''Map'', ''basemap'', ''map''] \<and>
   keywords example_metadata = [''basemap'', ''map''] @ relevant_apis example_metadata \<and>
   set [''basemap'', ''map''] \<inter> set (relevant_apis example_metadata) = {}"
proof -
  let ?m = "example_metadata\<lparr>images := [], snippets := JList []\<rparr>"
  have tags: "parse_tags (fst (get_readme_parts example_readme) ! 4) = Inr [''Map'', ''basemap'', ''map'']"
    by code_simp
  have idx: "list_index (fst (get_readme_parts example_readme)) ''Tags'' = Inr 3"
    by (simp add: example_parts list_index_def)
  from populate_from_readme_keywords[OF example_populate] idx tags
  have "keywords ?m = filter (\<lambda>w. w \<notin> set (relevant_apis ?m)) [''Map'', ''basemap'', ''map'']
                        @ relevant_apis ?m \<and>
        set (take (length (keywords ?m) - length (relevant_apis ?m)) (keywords ?m))
          \<inter> set (relevant_apis ?m) = {}"
    by auto
  then have "keywords example_metadata = [''basemap'', ''map''] @ relevant_apis example_metadata \<and>
     set [''basemap'', ''map''] \<inter> set (relevant_apis example_metadata) = {}"
    by (simp add: example_metadata_def)
  with example_populate tags show ?thesis by blast
qed

subsection \<open>The API list\<close>

text \<open>
  Claim C2, as stated: \<open>parse_apis\<close> returns the names sorted case-insensitively. It
  calls \<open>sorted\<close> without a key, so the names come out in code point order, in which
  every capital letter precedes every small one: of \<open>a\<close> and \<open>B\<close> it returns \<open>B\<close> first,
  while the case-insensitive order keeps \<open>a\<close> first.
\<close>

theorem parse_apis_counterexample:
  "parse_apis (''* a'' @ [LF] @ ''* B'') = Inr [''B'', ''a''] \<and>
   sort_key (casefold ascii_case) [''a'', ''B''] = [''a'', ''B''] \<and>
   \<not> sorted (map (casefold ascii_case) [''B'', ''a''])"
  by code_simp

text \<open>
  Claim C2, amended. For every body with at least one non-empty line, \<open>parse_apis\<close>
  returns the bullet-stripped, right-trimmed names of its non-empty lines, sorted in
  code point order (Python's default string comparison); a body without such a line
  raises. After a normal return of \<open>populate_from_readme\<close>, \<open>relevant_apis\<close> is that list
  for the body after the Relevant API header, and \<open>keywords\<close> ends with it, in that
  order.
\<close>

theorem parse_apis_sorted:
  "(nonempty_lines apis_string \<noteq> [] \<longrightarrow>
      (\<exists>apis. parse_apis apis_string = Inr apis \<and> sorted apis \<and>
         mset apis = mset (map (\<lambda>api. rstrip (lstrip_chars ''*- '' api))
                             (nonempty_lines apis_string)))) \<and>
   (nonempty_lines apis_string = [] \<longrightarrow>
      parse_apis apis_string = Inl ReadmeRelevantAPIParseFailure) \<and>
   (\<forall>m. populate_from_readme self readme_content = Inr m \<longrightarrow>
      (\<exists>ai. list_index (fst (get_readme_parts readme_content)) ''Relevant API'' = Inr ai \<and>
            parse_apis (fst (get_readme_parts readme_content) ! (ai + 1))
              = Inr (relevant_apis m)) \<and>
      sorted (relevant_apis m) \<and> suffix (relevant_apis m) (keywords m))"
proof -
  have sorted_result: "parse_apis b = Inr apis \<Longrightarrow> sorted apis" for b apis
    by (auto simp: parse_apis_def sorted_py_def Let_def split: if_splits)
  have a: "nonempty_lines apis_string \<noteq> [] \<longrightarrow>
      (\<exists>apis. parse_apis apis_string = Inr apis \<and> sorted apis \<and>
         mset apis = mset (map (\<lambda>api. rstrip (lstrip_chars ''*- '' api))
                             (nonempty_lines apis_string)))"
    by (simp add: parse_apis_def sorted_py_def Let_def)
  have b: "nonempty_lines apis_string = [] \<longrightarrow>
      parse_apis apis_string = Inl ReadmeRelevantAPIParseFailure"
    by (simp add: parse_apis_def)
  have c: "\<forall>m. populate_from_readme self readme_content = Inr m \<longrightarrow>
      (\<exists>ai. list_index (fst (get_readme_parts readme_content)) ''Relevant API'' = Inr ai \<and>
            parse_apis (fst (get_readme_parts readme_content) ! (ai + 1))
              = Inr (relevant_apis m)) \<and>
      sorted (relevant_apis m) \<and> suffix (relevant_apis m) (keywords m)"
  proof (intro allI impI)
    fix m assume "populate_from_readme self readme_content = Inr m"
    then show "(\<exists>ai. list_index (fst (get_readme_parts readme_content)) ''Relevant API'' = Inr ai \<and>
            parse_apis (fst (get_readme_parts readme_content) ! (ai + 1))
              = Inr (relevant_apis m)) \<and>
      sorted (relevant_apis m) \<and> suffix (relevant_apis m) (keywords m)"
      by (elim populate_from_readme_Inr) (auto dest: sorted_result simp: suffix_def)
  qed
  from a b c show ?thesis by blast
qed

theorem parse_apis_sorted_witness:
  "nonempty_lines ([LF, LF] @ ''* MapView'' @ [LF] @ ''* Map'' @ [LF, LF]) \<noteq> [] \<and>
   parse_apis ([LF, LF] @ ''* MapView'' @ [LF] @ ''* Map'' @ [LF, LF]) = Inr [''Map'', ''MapView''] \<and>
   nonempty_lines [LF, LF] = [] \<and>
   parse_apis [LF, LF] = Inl ReadmeRelevantAPIParseFailure \<and>
   populate_from_readme (Metadata_init ''Display map'') example_readme =
     Inr (example_metadata\<lparr>images := [], snippets := JList []\<rparr>) \<and>
   sorted (relevant_apis example_metadata) \<and>
   suffix (relevant_apis example_metadata) (keywords example_metadata)"
proof -
  let ?body = "[LF, LF] @ ''* MapView'' @ [LF] @ ''* Map'' @ [LF, LF]"
  let ?m = "example_metadata\<lparr>images := [], snippets := JList []\<rparr>"
  have ne: "nonempty_lines ?body \<noteq> []" by code_simp
  have res: "parse_apis ?body = Inr [''Map'', ''MapView'']" by code_simp
  have none: "nonempty_lines [LF, LF] = []" by code_simp
  note inst = parse_apis_sorted[of _ "Metadata_init ''Display map''" example_readme]
  from inst[of ?body] ne
  have "\<exists>apis. parse_apis ?body = Inr apis \<and> sorted apis" by blast
  with res have s1: "sorted [''Map'', ''MapView'']" by simp
  from inst[of "[LF, LF]"] none
  have raises: "parse_apis [LF, LF] = Inl ReadmeRelevantAPIParseFailure" by blast
  from inst[of ?body] example_populate
  have "sorted (relevant_apis ?m) \<and> suffix (relevant_apis ?m) (keywords ?m)" by blast
  then have s2: "sorted (relevant_apis example_metadata) \<and>
     suffix (relevant_apis example_metadata) (keywords example_metadata)"
    by simp
  from ne res none raises example_populate s2 show ?thesis by blast
qed

subsection \<open>The special rules of the metadata check\<close>

text \<open>Serialisation sorts the keys, so it sees a \<open>dict\<close> as its set of items.\<close>

lemma sort_key_fst_mset:
  assumes "mset d1 = mset d2" "distinct (map fst d2)"
  shows "sort_key fst d1 = sort_key fst d2"
proof (rule sort_key_inj_key_eq)
  show "mset d1 = mset (sort_key fst d2)" using assms(1) by simp
  have "mset (map fst d1) = mset (map fst d2)" using assms(1) by (metis mset_map)
  then have "distinct (map fst d1)" using assms(2) by (metis mset_eq_imp_distinct_iff)
  then show "inj_on fst (set d1)" by (simp add: distinct_map)
  show "sorted (map fst (sort_key fst d2))" by simp
qed

lemma map_of_mset:
  assumes "mset d1 = mset d2" "distinct (map fst d2)"
  shows "map_of d1 = map_of d2"
proof -
  have "mset (map fst d1) = mset (map fst d2)" using assms(1) by (metis mset_map)
  then have "distinct (map fst d1)" using assms(2) by (metis mset_eq_imp_distinct_iff)
  moreover have "set d1 = set d2" using assms(1) by (metis set_mset_mset)
  ultimately show ?thesis using assms(2) by (simp add: map_of_inject_set)
qed

lemma json_dumps_mset:
  assumes "mset d1 = mset d2" "distinct (map fst d2)"
  shows "json_dumps d1 = json_dumps d2"
proof -
  have "(d1 = []) = (d2 = [])" using assms(1) by (metis mset_zero_iff)
  then show ?thesis using sort_key_fst_mset[OF assms] by (simp add: json_dumps_def)
qed

text \<open>
  Claim C1, as stated: the persisted description replaces the derived one exactly when
  it equals the derived one with the special characters stripped. The code tests
  \<open>json_data['description'] in sub_special_char(checker.description)\<close>, the substring
  test: a persisted description that is a shortened part of the derived one replaces
  it although the two differ.
\<close>

theorem run_check_description_counterexample:
  "run_check_rules example_metadata
     [(''category'', JStr ''Maps''), (''redirect_from'', JList []),
      (''description'', JStr ''Display''), (''snippets'', JList [''A.swift'', ''B.swift''])]
   = Inr (example_metadata\<lparr>category := JStr ''Maps'', description := ''Display''\<rparr>) \<and>
   sub_special_char (description example_metadata) = ''Display a map.'' \<and>
   ''Display'' \<noteq> ''Display a map.''"
  by code_simp

text \<open>
  Claim C1, amended. When the rules return normally on a record whose description is
  the string \<open>persisted\<close>, the checker's description is \<open>persisted\<close> if \<open>persisted\<close> occurs
  as a substring in the derived description stripped of the special characters (as it
  does when the two are equal), and is the derived description, unchanged, if not.
\<close>

theorem run_check_description_rule:
  "run_check_rules checker json_data = Inr m \<Longrightarrow>
   dict_get json_data ''description'' = Inr (JStr persisted) \<Longrightarrow>
     description m =
       (if sublist persisted (sub_special_char (description checker)) then persisted
        else description checker)"
  by (auto simp: run_check_rules_def Let_def split: sum.splits option.splits jvalue.splits if_splits)

theorem run_check_description_rule_witness:
  "run_check_rules (example_metadata\<lparr>description := ''Display: a map.''\<rparr>) example_record
     = Inr (example_metadata\<lparr>category := JStr ''Maps'',
              snippets := JList [''B.swift'', ''A.swift'']\<rparr>) \<and>
   dict_get example_record ''description'' = Inr (JStr ''Display a map.'') \<and>
   sublist ''Display a map.'' (sub_special_char ''Display: a map.'') \<and>
   description (example_metadata\<lparr>category := JStr ''Maps'',
              snippets := JList [''B.swift'', ''A.swift'']\<rparr>) = ''Display a map.''"
proof -
  let ?checker = "example_metadata\<lparr>description := ''Display: a map.''\<rparr>"
  let ?m = "example_metadata\<lparr>category := JStr ''Maps'', snippets := JList [''B.swift'', ''A.swift'']\<rparr>"
  have rules: "run_check_rules ?checker example_record = Inr ?m" by code_simp
  have persisted: "dict_get example_record ''description'' = Inr (JStr ''Display a map.'')"
    by code_simp
  have sub: "sublist ''Display a map.'' (sub_special_char ''Display: a map.'')" by code_simp
  from run_check_description_rule[OF rules persisted] sub
  have "description ?m = ''Display a map.''" by simp
  with rules persisted sub show ?thesis by blast
qed

text \<open>
  Claim C7. If the persisted snippets, sorted, are the derived snippets, the rules put
  the persisted list, in its own order, into the checker before it is serialised.
  Hence a persisted record that holds the values of the derived one in every field
  that is compared, with the snippets in any order \<open>ps\<close> and its items in any order,
  passes the comparison: the two serialisations are equal, and \<open>run_check\<close> goes on to
  the category check. (\<open>offline_data\<close> of the checker is empty, as the constructor
  leaves it.)
\<close>

theorem run_check_snippets_rule:
  "(\<forall>m. run_check_rules checker json_data = Inr m \<and>
        dict_get json_data ''snippets'' = Inr (JList ps) \<and>
        snippets checker = JList (sorted_py ps) \<longrightarrow> snippets m = JList ps) \<and>
   (snippets checker = JList (sorted_py ps) \<and> \<not> truthy (offline_data checker) \<and>
    mset json_data =
      mset ([(''category'', c),
             (''description'', JStr (description checker)),
             (''ignore'', JBool (ignore checker)),
             (''images'', JList (images checker)),
             (''keywords'', JList (keywords checker)),
             (''redirect_from'', r),
             (''relevant_apis'', JList (relevant_apis checker)),
             (''snippets'', JList ps),
             (''title'', JStr (title checker))]
            @ (if truthy od then [(''offline_data'', od)] else [])) \<longrightarrow>
      (\<exists>m. run_check_rules checker json_data = Inr m \<and> snippets m = JList ps \<and>
           flush_to_json_string m = json_dumps json_data \<and>
           run_check_loaded checker json_data = check_category m))"
proof -
  have adopt: "\<forall>m. run_check_rules checker json_data = Inr m \<and>
        dict_get json_data ''snippets'' = Inr (JList ps) \<and>
        snippets checker = JList (sorted_py ps) \<longrightarrow> snippets m = JList ps"
    by (auto simp: run_check_rules_def Let_def
             split: sum.splits option.splits jvalue.splits if_splits)
  let ?D = "[(''category'', c),
             (''description'', JStr (description checker)),
             (''ignore'', JBool (ignore checker)),
             (''images'', JList (images checker)),
             (''keywords'', JList (keywords checker)),
             (''redirect_from'', r),
             (''relevant_apis'', JList (relevant_apis checker)),
             (''snippets'', JList ps),
             (''title'', JStr (title checker))]
            @ (if truthy od then [(''offline_data'', od)] else [])"
  have accept: "\<exists>m. run_check_rules checker json_data = Inr m \<and> snippets m = JList ps \<and>
           flush_to_json_string m = json_dumps json_data \<and>
           run_check_loaded checker json_data = check_category m"
    if s: "snippets checker = JList (sorted_py ps)"
      and o: "\<not> truthy (offline_data checker)"
      and j: "mset json_data = mset ?D"
  proof -
    have dist: "distinct (map fst ?D)" by simp
    have mo: "map_of json_data = map_of ?D" by (rule map_of_mset[OF j dist])
    have dumps: "json_dumps json_data = json_dumps ?D" by (rule json_dumps_mset[OF j dist])
    let ?m = "checker\<lparr>category := c, redirect_from := r,
                offline_data := (if truthy od then od else offline_data checker),
                snippets := JList ps\<rparr>"
    have rules: "run_check_rules checker json_data = Inr ?m"
      using s by (simp add: run_check_rules_def dict_get_def mo Let_def)
    have fl: "flush_to_json_string ?m = json_dumps ?D"
      using o by (simp add: flush_to_json_string_def)
    have "run_check_loaded checker json_data = check_category ?m"
      by (simp add: run_check_loaded_def rules fl dumps Let_def)
    with rules fl dumps show ?thesis by simp
  qed
  from adopt accept show ?thesis by blast
qed

theorem run_check_snippets_rule_witness:
  "snippets example_metadata = JList (sorted_py [''B.swift'', ''A.swift'']) \<and>
   dict_get example_record ''snippets'' = Inr (JList [''B.swift'', ''A.swift'']) \<and>
   run_check_rules example_metadata example_record
     = Inr (example_metadata\<lparr>category := JStr ''Maps'',
              snippets := JList [''B.swift'', ''A.swift'']\<rparr>) \<and>
   flush_to_json_string (example_metadata\<lparr>category := JStr ''Maps'',
              snippets := JList [''B.swift'', ''A.swift'']\<rparr>) = json_dumps example_record \<and>
   run_check_loaded example_metadata example_record = Inr ()"
proof -
  let ?ps = "[''B.swift'', ''A.swift'']"
  let ?m = "example_metadata\<lparr>category := JStr ''Maps'', snippets := JList ?ps\<rparr>"
  have derived: "snippets example_metadata = JList (sorted_py ?ps)" by code_simp
  have persisted: "dict_get example_record ''snippets'' = Inr (JList ?ps)" by code_simp
  have no_offline: "\<not> truthy (offline_data example_metadata)"
    by (simp add: example_metadata_def)
  have items: "mset example_record =
      mset ([(''category'', JStr ''Maps''),
             (''description'', JStr (description example_metadata)),
             (''ignore'', JBool (ignore example_metadata)),
             (''images'', JList (images example_metadata)),
             (''keywords'', JList (keywords example_metadata)),
             (''redirect_from'', JList []),
             (''relevant_apis'', JList (relevant_apis example_metadata)),
             (''snippets'', JList ?ps),
             (''title'', JStr (title example_metadata))]
            @ (if truthy (JList []) then [(''offline_data'', JList [])] else []))"
    by (simp add: example_record_def example_metadata_def)
  have rules: "run_check_rules example_metadata example_record = Inr ?m" by code_simp
  have category: "check_category ?m = Inr ()" by code_simp
  from run_check_snippets_rule[of example_metadata example_record ?ps "JStr ''Maps''" "JList []" "JList []"]
    derived no_offline items
  obtain m where m: "run_check_rules example_metadata example_record = Inr m"
      "snippets m = JList ?ps" "flush_to_json_string m = json_dumps example_record"
      "run_check_loaded example_metadata example_record = check_category m"
    by blast
  from m(1) rules have "m = ?m" by simp
  with m category have "flush_to_json_string ?m = json_dumps example_record"
      "run_check_loaded example_metadata example_record = Inr ()"
    by simp_all
  with derived persisted rules show ?thesis by blast
qed

end
